theory Spec2Isabelle
  imports Complex_Main
begin

section \<open>Moddo: feedback classification and printability analysis\<close>

text \<open>
  The decision logic of the repository lives in three places:
  \<^item> \<^verbatim>\<open>extractFeedbackParameters\<close> and \<^verbatim>\<open>determineFeedbackType\<close> in
    \<^verbatim>\<open>src/app/api/projects/[id]/feedback/route.ts\<close>;
  \<^item> \<^verbatim>\<open>analyzePrintability\<close> (model generation route) and
    \<^verbatim>\<open>STLConverter.validateForPrinting\<close> (STL conversion route), both in
    \<^verbatim>\<open>src/unnamed/part_001\<close>.
  Each of them is embedded below as a HOL function that follows the source statement by
  statement; local variables that the source mutates are rebound by \<open>let\<close>.
\<close>

subsection \<open>Strings\<close>

text \<open>
  A JavaScript string is a sequence of UTF-16 code units; a code unit is modelled by its
  number. The literals of the program are ASCII and are written as Isabelle strings;
  \<open>ascii\<close> gives the code units of such a literal.
\<close>

type_synonym jsstring = "nat list"

definition ascii :: "string \<Rightarrow> jsstring" where
  "ascii s = map of_char s"

text \<open>
  \<^verbatim>\<open>String.prototype.toLowerCase\<close> replaces every character by its Unicode lowercase
  form. The program only ever searches the result for ASCII keywords, so what matters is
  which characters turn into ASCII ones, and these are modelled exactly:
  \<^item> the letters \<open>A\<close> to \<open>Z\<close> (65 to 90) become \<open>a\<close> to \<open>z\<close> (add 32);
  \<^item> the Kelvin sign U+212A (8490) becomes \<open>k\<close> (107);
  \<^item> the dotted capital I, U+0130 (304), becomes \<open>i\<close> (105) followed by the combining
    dot U+0307 (775);
  \<^item> every other ASCII character stays as it is.
  Any other code unit lowercases to code units outside ASCII; it is left in place and
  stands for them. \<^verbatim>\<open>String.prototype.includes\<close> is the substring test.
\<close>

definition toLowerChar :: "nat \<Rightarrow> jsstring" where
  "toLowerChar c =
     (if 65 \<le> c \<and> c \<le> 90 then [c + 32]
      else if c = 8490 then [107]
      else if c = 304 then [105, 775]
      else [c])"

definition toLowerCase :: "jsstring \<Rightarrow> jsstring" where
  "toLowerCase s = concat (map toLowerChar s)"

fun startsWith :: "jsstring \<Rightarrow> jsstring \<Rightarrow> bool" where
  "startsWith s [] = True"
| "startsWith [] (k # ks) = False"
| "startsWith (c # cs) (k # ks) = (c = k \<and> startsWith cs ks)"

fun str_includes :: "jsstring \<Rightarrow> jsstring \<Rightarrow> bool" where
  "str_includes [] k = startsWith [] k"
| "str_includes (c # cs) k = (startsWith (c # cs) k \<or> str_includes cs k)"

subsection \<open>Data model\<close>

text \<open>
  The type declarations of \<^verbatim>\<open>@/lib/types\<close> are not part of the sources at hand; the
  shapes below are the ones the functions build: the string literals they assign become
  constructors, an optional field becomes an \<open>option\<close>, and \<^verbatim>\<open>undefined\<close> as a
  result is \<open>None\<close>.
\<close>

datatype SizeAdjustment = Larger | Smaller | Wider | Taller

datatype MaterialType = PLA | TPU | PETG | ABS

datatype FeedbackType = Comment | RefinementRequest | Approval

record FeedbackParameters =
  sizeAdjustment :: "SizeAdjustment option"
  materialChange :: "MaterialType option"
  functionalChanges :: "string list option"

record PrintabilityCheck =
  passed :: bool
  issues :: "string list"
  recommendations :: "string list"

text \<open>
  The mesh statistics are TypeScript \<^verbatim>\<open>number\<close>s. The analyzers only compare them with
  constants, so a number is modelled by the real it denotes: no rounding is involved. The
  callers pass finite counts, sizes and volumes; the value NaN has no counterpart here.
\<close>

record MeshCounts =
  vertices :: real
  faces :: real

record ModelStats = MeshCounts +
  fileSize :: real

record MeshStats = MeshCounts +
  volume :: real

subsection \<open>Feedback classifier\<close>

definition emptyParameters :: FeedbackParameters where
  "emptyParameters =
     \<lparr>sizeAdjustment = None, materialChange = None, functionalChanges = None\<rparr>"

text \<open>
  \<^verbatim>\<open>Object.keys\<close>: the names of the fields that have been assigned, in assignment
  order. In the function below the local array \<^verbatim>\<open>functionalChanges\<close> of the source is
  called \<open>changes\<close>, the name being taken by the field.
\<close>

definition objectKeys :: "FeedbackParameters \<Rightarrow> string list" where
  "objectKeys p =
     (if sizeAdjustment p \<noteq> None then [''sizeAdjustment''] else []) @
     (if materialChange p \<noteq> None then [''materialChange''] else []) @
     (if functionalChanges p \<noteq> None then [''functionalChanges''] else [])"

definition extractFeedbackParameters :: "jsstring \<Rightarrow> FeedbackParameters option" where
  "extractFeedbackParameters feedbackText =
     (let lowerText = toLowerCase feedbackText;
          parameters = emptyParameters;
          parameters =
            (if str_includes lowerText (ascii ''bigger'') \<or> str_includes lowerText (ascii ''larger'')
                \<or> str_includes lowerText (ascii ''increase size'')
             then parameters\<lparr>sizeAdjustment := Some Larger\<rparr>
             else if str_includes lowerText (ascii ''smaller'') \<or> str_includes lowerText (ascii ''reduce size'')
                \<or> str_includes lowerText (ascii ''compact'')
             then parameters\<lparr>sizeAdjustment := Some Smaller\<rparr>
             else if str_includes lowerText (ascii ''wider'') \<or> str_includes lowerText (ascii ''broader'')
             then parameters\<lparr>sizeAdjustment := Some Wider\<rparr>
             else if str_includes lowerText (ascii ''taller'') \<or> str_includes lowerText (ascii ''higher'')
             then parameters\<lparr>sizeAdjustment := Some Taller\<rparr>
             else parameters);
          parameters =
            (if str_includes lowerText (ascii ''flexible'') \<or> str_includes lowerText (ascii ''rubbery'')
                \<or> str_includes lowerText (ascii ''tpu'')
             then parameters\<lparr>materialChange := Some TPU\<rparr>
             else if str_includes lowerText (ascii ''rigid'') \<or> str_includes lowerText (ascii ''hard'')
                \<or> str_includes lowerText (ascii ''pla'')
             then parameters\<lparr>materialChange := Some PLA\<rparr>
             else if str_includes lowerText (ascii ''durable'') \<or> str_includes lowerText (ascii ''strong'')
                \<or> str_includes lowerText (ascii ''petg'')
             then parameters\<lparr>materialChange := Some PETG\<rparr>
             else if str_includes lowerText (ascii ''abs'')
             then parameters\<lparr>materialChange := Some ABS\<rparr>
             else parameters);
          changes = [];
          changes =
            (if str_includes lowerText (ascii ''hole'') \<or> str_includes lowerText (ascii ''opening'')
             then changes @ [''Add holes or openings''] else changes);
          changes =
            (if str_includes lowerText (ascii ''grip'') \<or> str_includes lowerText (ascii ''texture'')
             then changes @ [''Add grip texture''] else changes);
          changes =
            (if str_includes lowerText (ascii ''compartment'') \<or> str_includes lowerText (ascii ''section'')
             then changes @ [''Add compartments''] else changes);
          changes =
            (if str_includes lowerText (ascii ''smooth'') \<or> str_includes lowerText (ascii ''rounded'')
             then changes @ [''Smooth edges''] else changes);
          parameters =
            (if length changes > 0
             then parameters\<lparr>functionalChanges := Some changes\<rparr>
             else parameters)
      in if length (objectKeys parameters) > 0 then Some parameters else None)"

definition determineFeedbackType :: "jsstring \<Rightarrow> FeedbackType" where
  "determineFeedbackType feedbackText =
     (let lowerText = toLowerCase feedbackText
      in if str_includes lowerText (ascii ''perfect'') \<or> str_includes lowerText (ascii ''looks good'')
            \<or> str_includes lowerText (ascii ''approve'') \<or> str_includes lowerText (ascii ''ready'')
         then Approval
         else if str_includes lowerText (ascii ''change'') \<or> str_includes lowerText (ascii ''adjust'')
            \<or> str_includes lowerText (ascii ''make it'') \<or> str_includes lowerText (ascii ''need'')
            \<or> str_includes lowerText (ascii ''should be'') \<or> str_includes lowerText (ascii ''add'')
            \<or> str_includes lowerText (ascii ''remove'')
         then RefinementRequest
         else Comment)"

subsection \<open>Printability analyzers\<close>

definition analyzePrintability :: "ModelStats \<Rightarrow> PrintabilityCheck" where
  "analyzePrintability modelData =
     (let issues = [];
          recommendations = [];
          (issues, recommendations) =
            (if vertices modelData > 100000
             then (issues @ [''High vertex count may slow printing''],
                   recommendations @ [''Consider reducing model complexity''])
             else (issues, recommendations));
          (issues, recommendations) =
            (if fileSize modelData > 10 * 1024 * 1024
             then (issues @ [''Large file size may indicate excessive detail''],
                   recommendations @ [''Optimize mesh for 3D printing''])
             else (issues, recommendations));
          recommendations =
            (if length issues = 0
             then recommendations @ [''Model appears print-ready'']
                    @ [''Recommended layer height: 0.2mm'']
                    @ [''Supports may be needed for overhangs'']
             else recommendations)
      in \<lparr>passed = (length issues = 0), issues = issues,
          recommendations = recommendations\<rparr>)"

definition validateForPrinting :: "MeshStats \<Rightarrow> PrintabilityCheck" where
  "validateForPrinting meshData =
     (let issues = [];
          recommendations = [];
          (issues, recommendations) =
            (if volume meshData < 1
             then (issues @ [''Model may be too small for reliable printing''],
                   recommendations @ [''Consider scaling up the model''])
             else (issues, recommendations));
          (issues, recommendations) =
            (if volume meshData > 1000
             then (issues @ [''Model may be too large for some 3D printers''],
                   recommendations @ [''Consider scaling down or printing in parts''])
             else (issues, recommendations));
          (issues, recommendations) =
            (if faces meshData > 50000
             then (issues @ [''High face count may cause slicer performance issues''],
                   recommendations @ [''Consider mesh decimation to reduce complexity''])
             else (issues, recommendations));
          (issues, recommendations) =
            (if faces meshData < 100
             then (issues @ [''Low face count may result in blocky appearance''],
                   recommendations @ [''Consider increasing mesh resolution''])
             else (issues, recommendations));
          recommendations =
            (if length issues = 0
             then recommendations @ [''Model appears optimized for 3D printing'']
                    @ [''Recommended infill: 15-20%'']
                    @ [''Recommended layer height: 0.2mm'']
                    @ [''Consider orientation to minimize supports'']
             else recommendations)
      in \<lparr>passed = (length issues = 0), issues = issues,
          recommendations = recommendations\<rparr>)"

subsection \<open>The vocabulary of the specification\<close>

text \<open>
  The definitions of this subsection do not come from the code. They write down the
  notions the specification uses to describe it, so that the functions above can be
  compared with them: what it means for a text to contain a keyword regardless of case,
  the keyword tables of the classifier in their listed order, and the rule tables of the
  two analyzer configurations as (predicate, issue, recommendation) triples.
\<close>

text \<open>
  A text contains a keyword case-insensitively when some contiguous piece of the text
  becomes the keyword once lowercased.
\<close>

definition containsCI :: "jsstring \<Rightarrow> string \<Rightarrow> bool" where
  "containsCI text kw =
     (\<exists>pre mid post. text = pre @ mid @ post \<and> toLowerCase mid = ascii kw)"

text \<open>
  A plain keyword is ASCII and does not end in \<open>i\<close> (105). Every keyword of the tables
  below is plain; for such a keyword the lowercased dotted capital I, whose \<open>i\<close> is
  followed by a combining dot, can take no part in a match.
\<close>

definition plainKeyword :: "string \<Rightarrow> bool" where
  "plainKeyword kw =
     (list_all (\<lambda>u. u < 128) (ascii kw) \<and> (ascii kw = [] \<or> last (ascii kw) \<noteq> 105))"

definition approvalKeywords :: "string list" where
  "approvalKeywords = [''perfect'', ''looks good'', ''approve'', ''ready'']"

definition refinementKeywords :: "string list" where
  "refinementKeywords =
     [''change'', ''adjust'', ''make it'', ''need'', ''should be'', ''add'', ''remove'']"

definition sizeGroups :: "(string list \<times> SizeAdjustment) list" where
  "sizeGroups =
     [([''bigger'', ''larger'', ''increase size''], Larger),
      ([''smaller'', ''reduce size'', ''compact''], Smaller),
      ([''wider'', ''broader''], Wider),
      ([''taller'', ''higher''], Taller)]"

definition materialGroups :: "(string list \<times> MaterialType) list" where
  "materialGroups =
     [([''flexible'', ''rubbery'', ''tpu''], TPU),
      ([''rigid'', ''hard'', ''pla''], PLA),
      ([''durable'', ''strong'', ''petg''], PETG),
      ([''abs''], ABS)]"

definition functionalGroups :: "(string list \<times> string) list" where
  "functionalGroups =
     [([''hole'', ''opening''], ''Add holes or openings''),
      ([''grip'', ''texture''], ''Add grip texture''),
      ([''compartment'', ''section''], ''Add compartments''),
      ([''smooth'', ''rounded''], ''Smooth edges'')]"

definition allKeywords :: "string list" where
  "allKeywords =
     approvalKeywords @ refinementKeywords @ concat (map fst sizeGroups)
       @ concat (map fst materialGroups) @ concat (map fst functionalGroups)"

text \<open>A keyword group matches a text when the text contains one of its keywords.\<close>

definition groupMatches :: "jsstring \<Rightarrow> string list \<Rightarrow> bool" where
  "groupMatches text kws = (\<exists>k \<in> set kws. containsCI text k)"

definition anyGroupMatches :: "(string list \<times> 'a) list \<Rightarrow> jsstring \<Rightarrow> bool" where
  "anyGroupMatches groups text = (\<exists>g \<in> set groups. groupMatches text (fst g))"

text \<open>First match wins: the value of the first group, in table order, that matches.\<close>

definition firstMatch :: "(string list \<times> 'a) list \<Rightarrow> jsstring \<Rightarrow> 'a option" where
  "firstMatch groups text = map_option snd (find (\<lambda>g. groupMatches text (fst g)) groups)"

text \<open>Independent checks: the values of all matching groups, in table order.\<close>

definition allMatches :: "(string list \<times> 'a) list \<Rightarrow> jsstring \<Rightarrow> 'a list" where
  "allMatches groups text = map snd (filter (\<lambda>g. groupMatches text (fst g)) groups)"

type_synonym 'a rule = "('a \<Rightarrow> bool) \<times> string \<times> string"

text \<open>Configuration A: the check after 3D generation.\<close>

definition rulesA :: "ModelStats rule list" where
  "rulesA =
     [(\<lambda>m. vertices m > 100000,
       ''High vertex count may slow printing'', ''Consider reducing model complexity''),
      (\<lambda>m. fileSize m > 10 * 1024 * 1024,
       ''Large file size may indicate excessive detail'', ''Optimize mesh for 3D printing'')]"

text \<open>Configuration B: the check after STL conversion.\<close>

definition rulesB :: "MeshStats rule list" where
  "rulesB =
     [(\<lambda>m. volume m < 1,
       ''Model may be too small for reliable printing'', ''Consider scaling up the model''),
      (\<lambda>m. volume m > 1000,
       ''Model may be too large for some 3D printers'',
       ''Consider scaling down or printing in parts''),
      (\<lambda>m. faces m > 50000,
       ''High face count may cause slicer performance issues'',
       ''Consider mesh decimation to reduce complexity''),
      (\<lambda>m. faces m < 100,
       ''Low face count may result in blocky appearance'',
       ''Consider increasing mesh resolution'')]"

text \<open>
  The (issue, recommendation) pairs of the rules whose predicate holds of the input, in
  declaration order.
\<close>

definition fired :: "'a rule list \<Rightarrow> 'a \<Rightarrow> (string \<times> string) list" where
  "fired rules x = map snd (filter (\<lambda>r. fst r x) rules)"

section \<open>Properties\<close>

subsection \<open>Strings\<close>

lemma toLowerCase_append: "toLowerCase (a @ b) = toLowerCase a @ toLowerCase b"
  by (simp add: toLowerCase_def)

lemma toLowerCase_Cons: "toLowerCase (c # cs) = toLowerChar c @ toLowerCase cs"
  by (simp add: toLowerCase_def)

lemma toLowerCase_Nil: "toLowerCase [] = []"
  by (simp add: toLowerCase_def)

lemma toLowerChar_idem: "toLowerCase (toLowerChar c) = toLowerChar c"
  by (simp add: toLowerCase_def toLowerChar_def)

lemma toLowerCase_idem: "toLowerCase (toLowerCase s) = toLowerCase s"
  by (induction s)
    (simp_all add: toLowerCase_Nil toLowerCase_Cons toLowerCase_append toLowerChar_idem)

lemma toLowerChar_shape: "(\<exists>x. toLowerChar c = [x]) \<or> toLowerChar c = [105, 775]"
  by (simp add: toLowerChar_def)

lemma toLowerChar_cases:
  obtains (single) x where "toLowerChar c = [x]" | (dotted) "toLowerChar c = [105, 775]"
  using toLowerChar_shape [of c] by blast

text \<open>
  A plain keyword at the front of the lowercased text is the lowercase form of a front
  piece of the text; anywhere in the lowercased text, of some piece of the text.
\<close>

lemma lower_prefix_split:
  assumes "\<forall>u \<in> set kw. u < 128" and "kw = [] \<or> last kw \<noteq> 105"
    and "toLowerCase text = kw @ b"
  shows "\<exists>mid post. text = mid @ post \<and> toLowerCase mid = kw"
  using assms
proof (induction "text" arbitrary: kw b)
  case Nil
  then show ?case by (simp add: toLowerCase_Nil)
next
  case (Cons c cs)
  show ?case
  proof (cases kw)
    case Nil
    then have "c # cs = [] @ (c # cs) \<and> toLowerCase [] = kw"
      by (simp add: toLowerCase_Nil)
    then show ?thesis by blast
  next
    case kw: (Cons k ks)
    from Cons.prems(3) have e: "toLowerChar c @ toLowerCase cs = k # ks @ b"
      by (simp add: toLowerCase_Cons kw)
    show ?thesis
    proof (cases c rule: toLowerChar_cases)
      case (single x)
      with e have x: "x = k" and r: "toLowerCase cs = ks @ b" by simp_all
      have "\<forall>u \<in> set ks. u < 128" using Cons.prems(1) kw by simp
      moreover have "ks = [] \<or> last ks \<noteq> 105" using Cons.prems(2) kw by auto
      ultimately obtain mid post where "cs = mid @ post" and "toLowerCase mid = ks"
        using Cons.IH r by blast
      then have "c # cs = (c # mid) @ post \<and> toLowerCase (c # mid) = kw"
        by (simp add: toLowerCase_Cons single x kw)
      then show ?thesis by blast
    next
      case dotted
      with e have k: "k = 105" and r: "775 # toLowerCase cs = ks @ b" by simp_all
      show ?thesis
      proof (cases ks)
        case Nil
        with Cons.prems(2) kw k show ?thesis by simp
      next
        case (Cons y ys)
        with r have "y = 775" by simp
        with Cons.prems(1) kw Cons show ?thesis by simp
      qed
    qed
  qed
qed

lemma lower_infix_split:
  assumes "\<forall>u \<in> set kw. u < 128" and "kw = [] \<or> last kw \<noteq> 105"
    and "toLowerCase text = a @ kw @ b"
  shows "\<exists>pre mid post. text = pre @ mid @ post \<and> toLowerCase mid = kw"
  using assms(3)
proof (induction "text" arbitrary: a)
  case Nil
  then have "[] = a @ kw @ b" unfolding toLowerCase_Nil .
  then have "kw = []" by (simp only: Nil_is_append_conv append_is_Nil_conv)
  then have "([]::jsstring) = [] @ [] @ [] \<and> toLowerCase [] = kw"
    by (simp add: toLowerCase_Nil)
  then show ?case by blast
next
  case (Cons c cs)
  show ?case
  proof (cases a)
    case Nil
    with Cons.prems have "toLowerCase (c # cs) = kw @ b" by simp
    from lower_prefix_split [OF assms(1,2) this]
    obtain mid post where "c # cs = [] @ mid @ post" and "toLowerCase mid = kw" by auto
    then show ?thesis by blast
  next
    case a: (Cons x a')
    from Cons.prems have e: "toLowerChar c @ toLowerCase cs = x # a' @ kw @ b"
      by (simp add: toLowerCase_Cons a)
    have step: ?thesis if "toLowerCase cs = a'' @ kw @ b" for a''
    proof -
      from Cons.IH [OF that] obtain pre mid post
        where "cs = pre @ mid @ post" and m: "toLowerCase mid = kw" by blast
      then have "c # cs = (c # pre) @ mid @ post" by simp
      with m show ?thesis by blast
    qed
    show ?thesis
    proof (cases c rule: toLowerChar_cases)
      case (single y)
      with e have "toLowerCase cs = a' @ kw @ b" by simp
      then show ?thesis by (rule step)
    next
      case dotted
      with e have r: "775 # toLowerCase cs = a' @ kw @ b" by simp
      show ?thesis
      proof (cases a')
        case Nil
        with r have kb: "kw @ b = 775 # toLowerCase cs" by simp
        show ?thesis
        proof (cases kw)
          case Nil
          then have "c # cs = [] @ [] @ (c # cs) \<and> toLowerCase [] = kw"
            by (simp add: toLowerCase_Nil)
          then show ?thesis by blast
        next
          case (Cons k ks)
          with kb have "k = 775" by simp
          with assms(1) Cons show ?thesis by simp
        qed
      next
        case (Cons z a'')
        with r have "toLowerCase cs = a'' @ kw @ b" by simp
        then show ?thesis by (rule step)
      qed
    qed
  qed
qed

lemma startsWith_iff: "startsWith s k \<longleftrightarrow> (\<exists>post. s = k @ post)"
  by (induction s k rule: startsWith.induct) auto

text \<open>The recursive search finds exactly the substrings.\<close>

lemma str_includes_iff: "str_includes s k \<longleftrightarrow> (\<exists>pre post. s = pre @ k @ post)"
proof (induction s)
  case Nil
  then show ?case by (cases k) auto
next
  case (Cons c cs)
  show ?case
  proof
    assume "str_includes (c # cs) k"
    then consider "startsWith (c # cs) k" | "str_includes cs k" by auto
    then show "\<exists>pre post. c # cs = pre @ k @ post"
    proof cases
      case 1
      then obtain post where "c # cs = [] @ k @ post" by (auto simp: startsWith_iff)
      then show ?thesis by blast
    next
      case 2
      then obtain pre post where "cs = pre @ k @ post" using Cons.IH by blast
      then have "c # cs = (c # pre) @ k @ post" by simp
      then show ?thesis by blast
    qed
  next
    assume "\<exists>pre post. c # cs = pre @ k @ post"
    then obtain pre post where e: "c # cs = pre @ k @ post" by blast
    show "str_includes (c # cs) k"
    proof (cases pre)
      case Nil
      with e have "startsWith (c # cs) k" by (simp add: startsWith_iff)
      then show ?thesis by simp
    next
      case (Cons p ps)
      with e have "cs = ps @ k @ post" by simp
      then show ?thesis using Cons.IH by auto
    qed
  qed
qed

lemma plainKeyword_ascii:
  assumes "plainKeyword kw"
  shows "\<forall>u \<in> set (ascii kw). u < 128" and "ascii kw = [] \<or> last (ascii kw) \<noteq> 105"
  using assms unfolding plainKeyword_def list_all_iff by blast+

text \<open>
  What the code tests, \<^verbatim>\<open>lowerText.includes(kw)\<close>, is case-insensitive containment.
\<close>

lemma containsCI_code:
  "plainKeyword kw \<Longrightarrow> containsCI text kw \<longleftrightarrow> str_includes (toLowerCase text) (ascii kw)"
proof
  assume "containsCI text kw"
  then obtain pre mid post where "text = pre @ mid @ post" and "toLowerCase mid = ascii kw"
    by (auto simp: containsCI_def)
  then have "toLowerCase text = toLowerCase pre @ ascii kw @ toLowerCase post"
    by (simp add: toLowerCase_append)
  then show "str_includes (toLowerCase text) (ascii kw)"
    unfolding str_includes_iff by blast
next
  assume p: "plainKeyword kw" and "str_includes (toLowerCase text) (ascii kw)"
  then obtain a b where "toLowerCase text = a @ ascii kw @ b"
    unfolding str_includes_iff by blast
  from lower_infix_split [OF plainKeyword_ascii [OF p] this]
  show "containsCI text kw"
    unfolding containsCI_def by blast
qed

text \<open>Every keyword of the tables is plain.\<close>

lemma allKeywords_plain: "list_all plainKeyword allKeywords"
  by (simp add: allKeywords_def approvalKeywords_def refinementKeywords_def sizeGroups_def
      materialGroups_def functionalGroups_def plainKeyword_def ascii_def)

lemmas eval_simps = containsCI_code plainKeyword_def ascii_def toLowerCase_def toLowerChar_def

lemma firstMatch_None: "firstMatch groups text = None \<longleftrightarrow> \<not> anyGroupMatches groups text"
  by (auto simp: firstMatch_def anyGroupMatches_def find_None_iff)

lemma allMatches_Nil: "allMatches groups text = [] \<longleftrightarrow> \<not> anyGroupMatches groups text"
  by (auto simp: allMatches_def anyGroupMatches_def filter_empty_conv)

subsection \<open>The classifier in terms of the keyword tables\<close>

text \<open>
  The cascade of \<^verbatim>\<open>extractFeedbackParameters\<close> computes the first matching size group,
  the first matching material group and all matching functional groups, and returns
  nothing when all three are empty.
\<close>

lemma extract_char:
  "extractFeedbackParameters text =
     (let s = firstMatch sizeGroups text;
          m = firstMatch materialGroups text;
          f = allMatches functionalGroups text
      in if s = None \<and> m = None \<and> f = [] then None
         else Some \<lparr>sizeAdjustment = s, materialChange = m,
                    functionalChanges = (if f = [] then None else Some f)\<rparr>)"
proof -
  define lt where "lt = toLowerCase text"
  define s where "s = firstMatch sizeGroups text"
  define m where "m = firstMatch materialGroups text"
  define f where "f = allMatches functionalGroups text"
  define p1 where "p1 =
            (if str_includes lt (ascii ''bigger'') \<or> str_includes lt (ascii ''larger'')
                \<or> str_includes lt (ascii ''increase size'')
             then emptyParameters\<lparr>sizeAdjustment := Some Larger\<rparr>
             else if str_includes lt (ascii ''smaller'') \<or> str_includes lt (ascii ''reduce size'')
                \<or> str_includes lt (ascii ''compact'')
             then emptyParameters\<lparr>sizeAdjustment := Some Smaller\<rparr>
             else if str_includes lt (ascii ''wider'') \<or> str_includes lt (ascii ''broader'')
             then emptyParameters\<lparr>sizeAdjustment := Some Wider\<rparr>
             else if str_includes lt (ascii ''taller'') \<or> str_includes lt (ascii ''higher'')
             then emptyParameters\<lparr>sizeAdjustment := Some Taller\<rparr>
             else emptyParameters)"
  define p2 where "p2 =
            (if str_includes lt (ascii ''flexible'') \<or> str_includes lt (ascii ''rubbery'')
                \<or> str_includes lt (ascii ''tpu'')
             then p1\<lparr>materialChange := Some TPU\<rparr>
             else if str_includes lt (ascii ''rigid'') \<or> str_includes lt (ascii ''hard'')
                \<or> str_includes lt (ascii ''pla'')
             then p1\<lparr>materialChange := Some PLA\<rparr>
             else if str_includes lt (ascii ''durable'') \<or> str_includes lt (ascii ''strong'')
                \<or> str_includes lt (ascii ''petg'')
             then p1\<lparr>materialChange := Some PETG\<rparr>
             else if str_includes lt (ascii ''abs'')
             then p1\<lparr>materialChange := Some ABS\<rparr>
             else p1)"
  define c1 where "c1 =
            (if str_includes lt (ascii ''hole'') \<or> str_includes lt (ascii ''opening'')
             then [] @ [''Add holes or openings''] else [])"
  define c2 where "c2 =
            (if str_includes lt (ascii ''grip'') \<or> str_includes lt (ascii ''texture'')
             then c1 @ [''Add grip texture''] else c1)"
  define c3 where "c3 =
            (if str_includes lt (ascii ''compartment'') \<or> str_includes lt (ascii ''section'')
             then c2 @ [''Add compartments''] else c2)"
  define c4 where "c4 =
            (if str_includes lt (ascii ''smooth'') \<or> str_includes lt (ascii ''rounded'')
             then c3 @ [''Smooth edges''] else c3)"
  define p3 where "p3 = (if length c4 > 0 then p2\<lparr>functionalChanges := Some c4\<rparr> else p2)"
  have code: "extractFeedbackParameters text =
      (if length (objectKeys p3) > 0 then Some p3 else None)"
    unfolding extractFeedbackParameters_def Let_def p3_def c4_def c3_def c2_def c1_def
      p2_def p1_def lt_def by (rule refl)
  have p1: "p1 = emptyParameters\<lparr>sizeAdjustment := s\<rparr>"
    by (simp add: p1_def s_def lt_def firstMatch_def groupMatches_def sizeGroups_def
        containsCI_code plainKeyword_def ascii_def emptyParameters_def)
  have p2: "p2 = p1\<lparr>materialChange := m\<rparr>"
    by (simp add: p2_def m_def lt_def firstMatch_def groupMatches_def materialGroups_def
        containsCI_code plainKeyword_def ascii_def p1 emptyParameters_def)
  have c1: "c1 = map snd (filter (\<lambda>g. groupMatches text (fst g)) (take 1 functionalGroups))"
    by (simp add: c1_def lt_def groupMatches_def functionalGroups_def containsCI_code
        plainKeyword_def ascii_def)
  have c2: "c2 = map snd (filter (\<lambda>g. groupMatches text (fst g)) (take 2 functionalGroups))"
    by (simp add: c2_def c1 lt_def groupMatches_def functionalGroups_def containsCI_code
        plainKeyword_def ascii_def)
  have c3: "c3 = map snd (filter (\<lambda>g. groupMatches text (fst g)) (take 3 functionalGroups))"
    by (simp add: c3_def c2 lt_def groupMatches_def functionalGroups_def containsCI_code
        plainKeyword_def ascii_def)
  have c4: "c4 = f"
    by (simp add: c4_def c3 f_def allMatches_def lt_def groupMatches_def functionalGroups_def
        containsCI_code plainKeyword_def ascii_def)
  have p3: "p3 = \<lparr>sizeAdjustment = s, materialChange = m,
                    functionalChanges = (if f = [] then None else Some f)\<rparr>"
    by (simp add: p3_def p2 p1 c4 emptyParameters_def)
  have keys: "length (objectKeys p3) > 0 \<longleftrightarrow> \<not> (s = None \<and> m = None \<and> f = [])"
    by (simp add: p3 objectKeys_def)
  show ?thesis
    unfolding code keys Let_def s_def [symmetric] m_def [symmetric] f_def [symmetric]
    by (simp add: p3)
qed

lemma type_char:
  "determineFeedbackType text =
     (if groupMatches text approvalKeywords then Approval
      else if groupMatches text refinementKeywords then RefinementRequest
      else Comment)"
  by (simp add: determineFeedbackType_def Let_def groupMatches_def approvalKeywords_def
      refinementKeywords_def containsCI_code plainKeyword_def ascii_def)

text \<open>
  Characters outside ASCII that lowercase to ASCII letters take part in the matching, as
  they do in the program: with the Kelvin sign for \<open>k\<close>, "looKs good" is an approval and
  "maKe it shorter" a refinement request.
\<close>

lemma kelvin_sign_examples:
  "determineFeedbackType (ascii ''loo'' @ [8490] @ ascii ''s good'') = Approval"
  "determineFeedbackType (ascii ''ma'' @ [8490] @ ascii ''e it shorter'') = RefinementRequest"
  "containsCI (ascii ''ma'' @ [8490] @ ascii ''e it shorter'') ''make it''"
  by (simp_all add: determineFeedbackType_def Let_def eval_simps)

lemmas extract_eval = extractFeedbackParameters_def Let_def toLowerCase_def toLowerChar_def
  ascii_def objectKeys_def emptyParameters_def

subsection \<open>The analyzers in terms of the rule tables\<close>

lemma analyzeA_fired:
  "issues (analyzePrintability a) = map fst (fired rulesA a)"
  "passed (analyzePrintability a) = (fired rulesA a = [])"
  "recommendations (analyzePrintability a) =
     (if fired rulesA a = []
      then [''Model appears print-ready'', ''Recommended layer height: 0.2mm'',
            ''Supports may be needed for overhangs'']
      else map snd (fired rulesA a))"
  by (simp_all add: analyzePrintability_def fired_def rulesA_def)

lemma validateB_fired:
  "issues (validateForPrinting b) = map fst (fired rulesB b)"
  "passed (validateForPrinting b) = (fired rulesB b = [])"
  "recommendations (validateForPrinting b) =
     (if fired rulesB b = []
      then [''Model appears optimized for 3D printing'', ''Recommended infill: 15-20%'',
            ''Recommended layer height: 0.2mm'', ''Consider orientation to minimize supports'']
      else map snd (fired rulesB b))"
  by (simp_all add: validateForPrinting_def fired_def rulesB_def)

section \<open>The claims\<close>

subsection \<open>Feedback classifier\<close>

text \<open>
  Claim C1. A text that contains, case-insensitively, one of the approval keywords
  "perfect", "looks good", "approve", "ready" is classified as approval, whatever else it
  contains, refinement keywords included: the approval test comes first.
\<close>

theorem approval_has_priority:
  assumes "k \<in> set approvalKeywords" and "containsCI text k"
  shows "determineFeedbackType text = Approval"
proof -
  from assms have "groupMatches text approvalKeywords"
    unfolding groupMatches_def by blast
  then show ?thesis by (simp add: type_char)
qed

text \<open>
  Instances: a text with both an approval and a refinement keyword, and one where the
  \<open>k\<close> of "looks good" is written with the Kelvin sign.
\<close>

theorem approval_has_priority_witness:
  "''perfect'' \<in> set approvalKeywords
   \<and> containsCI (ascii ''Perfect, but please add a hole'') ''perfect''
   \<and> ''add'' \<in> set refinementKeywords
   \<and> containsCI (ascii ''Perfect, but please add a hole'') ''add''
   \<and> determineFeedbackType (ascii ''Perfect, but please add a hole'') = Approval
   \<and> ''looks good'' \<in> set approvalKeywords
   \<and> containsCI (ascii ''Loo'' @ [8490] @ ascii ''s good, but make it wider'') ''looks good''
   \<and> determineFeedbackType (ascii ''Loo'' @ [8490] @ ascii ''s good, but make it wider'')
       = Approval"
proof -
  have h1: "''perfect'' \<in> set approvalKeywords"
    by (simp add: approvalKeywords_def)
  have h2: "containsCI (ascii ''Perfect, but please add a hole'') ''perfect''"
    by (simp add: eval_simps)
  have h3: "''add'' \<in> set refinementKeywords"
    by (simp add: refinementKeywords_def)
  have h4: "containsCI (ascii ''Perfect, but please add a hole'') ''add''"
    by (simp add: eval_simps)
  have h5: "''looks good'' \<in> set approvalKeywords"
    by (simp add: approvalKeywords_def)
  have h6: "containsCI (ascii ''Loo'' @ [8490] @ ascii ''s good, but make it wider'')
      ''looks good''"
    by (simp add: eval_simps)
  from approval_has_priority [OF h1 h2] approval_has_priority [OF h5 h6] h1 h2 h3 h4 h5 h6
  show ?thesis by simp
qed

text \<open>
  Claim C7. A text that contains, case-insensitively, none of the keywords of any table
  is classified as a comment, and no parameters are extracted from it.
\<close>

theorem no_keyword_comment_and_absent:
  assumes "\<forall>k \<in> set allKeywords. \<not> containsCI text k"
  shows "determineFeedbackType text = Comment \<and> extractFeedbackParameters text = None"
proof -
  have a: "\<not> groupMatches text approvalKeywords"
    using assms by (auto simp: groupMatches_def allKeywords_def)
  have r: "\<not> groupMatches text refinementKeywords"
    using assms by (auto simp: groupMatches_def allKeywords_def)
  have s: "\<not> anyGroupMatches sizeGroups text"
    using assms unfolding anyGroupMatches_def groupMatches_def allKeywords_def
    by auto
  have m: "\<not> anyGroupMatches materialGroups text"
    using assms unfolding anyGroupMatches_def groupMatches_def allKeywords_def
    by auto
  have f: "\<not> anyGroupMatches functionalGroups text"
    using assms unfolding anyGroupMatches_def groupMatches_def allKeywords_def
    by auto
  from a r have "determineFeedbackType text = Comment"
    by (simp add: type_char)
  moreover from s m f have "extractFeedbackParameters text = None"
    by (simp add: extract_char Let_def firstMatch_None allMatches_Nil)
  ultimately show ?thesis by simp
qed

text \<open>An instance: a text without any keyword.\<close>

theorem no_keyword_comment_and_absent_witness:
  "\<not> (\<exists>k \<in> set allKeywords. containsCI (ascii ''Nice work, thanks!'') k)
   \<and> determineFeedbackType (ascii ''Nice work, thanks!'') = Comment
   \<and> extractFeedbackParameters (ascii ''Nice work, thanks!'') = None"
proof -
  have h: "\<forall>k \<in> set allKeywords. \<not> containsCI (ascii ''Nice work, thanks!'') k"
    by (simp add: allKeywords_def approvalKeywords_def refinementKeywords_def sizeGroups_def
      materialGroups_def functionalGroups_def eval_simps)
  from no_keyword_comment_and_absent [OF h] h show ?thesis by simp
qed

text \<open>
  Claim C5. \<^verbatim>\<open>extractFeedbackParameters\<close> returns nothing if and only if no size, no
  material and no functional keyword group matches. It never returns an empty parameter
  object: a returned object has at least one key. Its \<open>functionalChanges\<close> field is never
  an empty list, and it is absent whenever no functional keyword group matches.
\<close>

theorem extract_absent_iff_no_match:
  "(extractFeedbackParameters text = None) =
     (\<not> anyGroupMatches sizeGroups text \<and> \<not> anyGroupMatches materialGroups text
        \<and> \<not> anyGroupMatches functionalGroups text)
   \<and> extractFeedbackParameters text \<noteq> Some emptyParameters
   \<and> (\<forall>p. extractFeedbackParameters text = Some p \<longrightarrow>
         objectKeys p \<noteq> [] \<and> functionalChanges p \<noteq> Some []
         \<and> (\<not> anyGroupMatches functionalGroups text \<longrightarrow> functionalChanges p = None))"
  by (auto simp: extract_char Let_def firstMatch_None allMatches_Nil emptyParameters_def
      objectKeys_def split: if_splits)

text \<open>Instances: a text matching a size group only, and a text matching nothing.\<close>

theorem extract_absent_iff_no_match_witness:
  "extractFeedbackParameters (ascii ''Please make it smaller'') =
     Some \<lparr>sizeAdjustment = Some Smaller, materialChange = None, functionalChanges = None\<rparr>
   \<and> \<not> anyGroupMatches functionalGroups (ascii ''Please make it smaller'')
   \<and> objectKeys \<lparr>sizeAdjustment = Some Smaller, materialChange = None,
        functionalChanges = None\<rparr> \<noteq> []
   \<and> extractFeedbackParameters (ascii ''Thank you'') = None
   \<and> \<not> anyGroupMatches sizeGroups (ascii ''Thank you'')
   \<and> \<not> anyGroupMatches materialGroups (ascii ''Thank you'')
   \<and> \<not> anyGroupMatches functionalGroups (ascii ''Thank you'')"
proof -
  have e: "extractFeedbackParameters (ascii ''Please make it smaller'') =
     Some \<lparr>sizeAdjustment = Some Smaller, materialChange = None, functionalChanges = None\<rparr>"
    by (simp add: extract_eval)
  have f: "\<not> anyGroupMatches functionalGroups (ascii ''Please make it smaller'')"
    by (simp add: anyGroupMatches_def groupMatches_def functionalGroups_def eval_simps)
  have n: "extractFeedbackParameters (ascii ''Thank you'') = None"
    by (simp add: extract_eval)
  from extract_absent_iff_no_match [of "ascii ''Please make it smaller''"]
    extract_absent_iff_no_match [of "ascii ''Thank you''"] e f n
  show ?thesis by simp
qed

text \<open>
  Claim C6. The result records at most one size adjustment and at most one material
  change: the value of the first matching group in the fixed orders larger, smaller,
  wider, taller and TPU, PLA, PETG, ABS, whatever other groups match. A text that
  contains both "bigger" and "wider" yields the size adjustment larger.
\<close>

theorem extract_first_match_wins:
  "(case extractFeedbackParameters text of None \<Rightarrow> None | Some p \<Rightarrow> sizeAdjustment p)
      = firstMatch sizeGroups text
   \<and> (case extractFeedbackParameters text of None \<Rightarrow> None | Some p \<Rightarrow> materialChange p)
      = firstMatch materialGroups text
   \<and> (containsCI text ''bigger'' \<and> containsCI text ''wider'' \<longrightarrow>
        (\<exists>p. extractFeedbackParameters text = Some p \<and> sizeAdjustment p = Some Larger))"
proof -
  have "firstMatch sizeGroups text = Some Larger" if "containsCI text ''bigger''"
    using that by (simp add: firstMatch_def sizeGroups_def groupMatches_def)
  then show ?thesis
    by (auto simp: extract_char Let_def)
qed

text \<open>An instance: two size groups match, the first one listed wins.\<close>

theorem extract_first_match_wins_witness:
  "containsCI (ascii ''Bigger and wider'') ''bigger''
   \<and> containsCI (ascii ''Bigger and wider'') ''wider''
   \<and> extractFeedbackParameters (ascii ''Bigger and wider'') =
       Some \<lparr>sizeAdjustment = Some Larger, materialChange = None, functionalChanges = None\<rparr>
   \<and> firstMatch sizeGroups (ascii ''Bigger and wider'') = Some Larger
   \<and> firstMatch materialGroups (ascii ''Bigger and wider'') = None"
proof -
  have h1: "containsCI (ascii ''Bigger and wider'') ''bigger''"
    by (simp add: eval_simps)
  have h2: "containsCI (ascii ''Bigger and wider'') ''wider''"
    by (simp add: eval_simps)
  have e: "extractFeedbackParameters (ascii ''Bigger and wider'') =
       Some \<lparr>sizeAdjustment = Some Larger, materialChange = None, functionalChanges = None\<rparr>"
    by (simp add: extract_eval)
  from extract_first_match_wins [of "ascii ''Bigger and wider''"] h1 h2 e show ?thesis by simp
qed

text \<open>
  Claim C8. From the text "Make it bigger and use flexible material" the extraction
  returns the size adjustment larger and the material change TPU, with no
  \<open>functionalChanges\<close> field.
\<close>

theorem extract_bigger_flexible_example:
  "extractFeedbackParameters (ascii ''Make it bigger and use flexible material'') =
     Some \<lparr>sizeAdjustment = Some Larger, materialChange = Some TPU, functionalChanges = None\<rparr>"
  by (simp add: extract_eval)

text \<open>
  Claim C9. Parameter extraction does not depend on the case of its input: a text and
  its lowercased form give the same result.
\<close>

theorem extract_case_invariant:
  "extractFeedbackParameters (toLowerCase text) = extractFeedbackParameters text"
  by (simp add: extractFeedbackParameters_def toLowerCase_idem)

text \<open>An instance: an upper-case text.\<close>

theorem extract_case_invariant_witness:
  "extractFeedbackParameters (ascii ''USE TPU'') = extractFeedbackParameters (ascii ''use tpu'')
   \<and> extractFeedbackParameters (ascii ''USE TPU'') =
       Some \<lparr>sizeAdjustment = None, materialChange = Some TPU, functionalChanges = None\<rparr>"
proof -
  have l: "toLowerCase (ascii ''USE TPU'') = ascii ''use tpu''"
    by (simp add: toLowerCase_def toLowerChar_def ascii_def)
  have e: "extractFeedbackParameters (ascii ''use tpu'') =
       Some \<lparr>sizeAdjustment = None, materialChange = Some TPU, functionalChanges = None\<rparr>"
    by (simp add: extract_eval)
  from extract_case_invariant [of "ascii ''USE TPU''"] l e show ?thesis by simp
qed

subsection \<open>Printability analyzers\<close>

text \<open>
  Claim C3. Configuration A (after 3D generation): the check passes if and only if the
  vertex count is at most 100000 and the file size at most 10485760 bytes. More than
  100000 vertices add the high-vertex-count issue and its recommendation, a larger file
  the large-file issue and its recommendation. When neither rule triggers, the
  recommendations are exactly the three defaults, which replace the per-rule
  recommendations and are never appended to them.
\<close>

theorem analyzePrintability_rules:
  "passed (analyzePrintability m) = (vertices m \<le> 100000 \<and> fileSize m \<le> 10485760)
   \<and> issues (analyzePrintability m) =
        (if vertices m > 100000 then [''High vertex count may slow printing''] else [])
        @ (if fileSize m > 10485760 then [''Large file size may indicate excessive detail'']
           else [])
   \<and> recommendations (analyzePrintability m) =
        (if vertices m \<le> 100000 \<and> fileSize m \<le> 10485760
         then [''Model appears print-ready'', ''Recommended layer height: 0.2mm'',
               ''Supports may be needed for overhangs'']
         else (if vertices m > 100000 then [''Consider reducing model complexity''] else [])
              @ (if fileSize m > 10485760 then [''Optimize mesh for 3D printing''] else []))"
  by (simp add: analyzePrintability_def not_less)

text \<open>Instances: a model within both thresholds, and one just above both.\<close>

theorem analyzePrintability_rules_witness:
  "passed (analyzePrintability \<lparr>vertices = 50000, faces = 1000, fileSize = 1000000\<rparr>)
   \<and> issues (analyzePrintability \<lparr>vertices = 50000, faces = 1000, fileSize = 1000000\<rparr>) = []
   \<and> recommendations (analyzePrintability
        \<lparr>vertices = 50000, faces = 1000, fileSize = 1000000\<rparr>) =
        [''Model appears print-ready'', ''Recommended layer height: 0.2mm'',
         ''Supports may be needed for overhangs'']
   \<and> \<not> passed (analyzePrintability \<lparr>vertices = 100001, faces = 1000, fileSize = 10485761\<rparr>)
   \<and> recommendations (analyzePrintability
        \<lparr>vertices = 100001, faces = 1000, fileSize = 10485761\<rparr>) =
        [''Consider reducing model complexity'', ''Optimize mesh for 3D printing'']"
  using analyzePrintability_rules [of "\<lparr>vertices = 50000, faces = 1000, fileSize = 1000000\<rparr>"]
    analyzePrintability_rules [of "\<lparr>vertices = 100001, faces = 1000, fileSize = 10485761\<rparr>"]
  by simp

text \<open>
  Claim C2. Configuration B (after STL conversion): the four rules are evaluated
  independently, in declaration order. A volume below 1 adds the too-small issue and its
  recommendation, a volume above 1000 the too-large ones, more than 50000 faces the
  high-face-count ones, fewer than 100 faces the low-face-count ones. When no rule
  triggers, the issues are empty and the recommendations are exactly the four defaults.
  For vertices 5000, faces 200 and volume 0.5 the check does not pass and reports exactly
  the too-small issue.
\<close>

theorem validateForPrinting_rules:
  "issues (validateForPrinting m) =
        (if volume m < 1 then [''Model may be too small for reliable printing''] else [])
        @ (if volume m > 1000 then [''Model may be too large for some 3D printers''] else [])
        @ (if faces m > 50000 then [''High face count may cause slicer performance issues'']
           else [])
        @ (if faces m < 100 then [''Low face count may result in blocky appearance''] else [])
   \<and> recommendations (validateForPrinting m) =
        (if \<not> volume m < 1 \<and> \<not> volume m > 1000 \<and> \<not> faces m > 50000 \<and> \<not> faces m < 100
         then [''Model appears optimized for 3D printing'', ''Recommended infill: 15-20%'',
               ''Recommended layer height: 0.2mm'',
               ''Consider orientation to minimize supports'']
         else (if volume m < 1 then [''Consider scaling up the model''] else [])
              @ (if volume m > 1000 then [''Consider scaling down or printing in parts'']
                 else [])
              @ (if faces m > 50000 then [''Consider mesh decimation to reduce complexity'']
                 else [])
              @ (if faces m < 100 then [''Consider increasing mesh resolution''] else []))
   \<and> passed (validateForPrinting \<lparr>vertices = 5000, faces = 200, volume = 0.5\<rparr>) = False
   \<and> issues (validateForPrinting \<lparr>vertices = 5000, faces = 200, volume = 0.5\<rparr>) =
        [''Model may be too small for reliable printing'']"
  by (simp add: validateForPrinting_def)

text \<open>Instances: two rules triggering at once, and no rule triggering.\<close>

theorem validateForPrinting_rules_witness:
  "issues (validateForPrinting \<lparr>vertices = 8, faces = 12, volume = 2000\<rparr>) =
     [''Model may be too large for some 3D printers'',
      ''Low face count may result in blocky appearance'']
   \<and> recommendations (validateForPrinting \<lparr>vertices = 8, faces = 12, volume = 2000\<rparr>) =
     [''Consider scaling down or printing in parts'', ''Consider increasing mesh resolution'']
   \<and> issues (validateForPrinting \<lparr>vertices = 5000, faces = 200, volume = 500\<rparr>) = []
   \<and> recommendations (validateForPrinting \<lparr>vertices = 5000, faces = 200, volume = 500\<rparr>) =
     [''Model appears optimized for 3D printing'', ''Recommended infill: 15-20%'',
      ''Recommended layer height: 0.2mm'', ''Consider orientation to minimize supports'']"
  using validateForPrinting_rules [of "\<lparr>vertices = 8, faces = 12, volume = 2000\<rparr>"]
    validateForPrinting_rules [of "\<lparr>vertices = 5000, faces = 200, volume = 500\<rparr>"]
  by simp

text \<open>
  Claim C4. Both analyzers return a verdict for every numeric input, negative and zero
  values included, and in that verdict \<open>passed\<close> holds if and only if the list of issues
  is empty.
\<close>

theorem passed_iff_no_issues:
  "(\<exists>v. analyzePrintability a = v \<and> passed v = (issues v = []))
   \<and> (\<exists>v. validateForPrinting b = v \<and> passed v = (issues v = []))"
  by (simp add: analyzeA_fired validateB_fired)

text \<open>Instances at negative and zero statistics.\<close>

theorem passed_iff_no_issues_witness:
  "passed (analyzePrintability \<lparr>vertices = - 5, faces = 0, fileSize = 0\<rparr>)
   \<and> issues (analyzePrintability \<lparr>vertices = - 5, faces = 0, fileSize = 0\<rparr>) = []
   \<and> \<not> passed (validateForPrinting \<lparr>vertices = 0, faces = - 1, volume = 0\<rparr>)
   \<and> issues (validateForPrinting \<lparr>vertices = 0, faces = - 1, volume = 0\<rparr>) \<noteq> []"
  using passed_iff_no_issues [of "\<lparr>vertices = - 5, faces = 0, fileSize = 0\<rparr>"
      "\<lparr>vertices = 0, faces = - 1, volume = 0\<rparr>"]
  by (simp add: analyzePrintability_def validateForPrinting_def)

text \<open>
  Claim C10. In both analyzers the list of recommendations is never empty. Whenever
  there are issues, there are as many recommendations as issues, and the i-th issue and
  the i-th recommendation come from the same rule: paired up, they are the (issue,
  recommendation) pairs of the triggered rules, in declaration order.
\<close>

theorem recommendations_paired_with_issues:
  "recommendations (analyzePrintability a) \<noteq> []
   \<and> (issues (analyzePrintability a) \<noteq> [] \<longrightarrow>
        length (recommendations (analyzePrintability a)) = length (issues (analyzePrintability a))
        \<and> zip (issues (analyzePrintability a)) (recommendations (analyzePrintability a))
            = fired rulesA a)
   \<and> recommendations (validateForPrinting b) \<noteq> []
   \<and> (issues (validateForPrinting b) \<noteq> [] \<longrightarrow>
        length (recommendations (validateForPrinting b)) = length (issues (validateForPrinting b))
        \<and> zip (issues (validateForPrinting b)) (recommendations (validateForPrinting b))
            = fired rulesB b)"
  by (simp add: analyzeA_fired validateB_fired zip_map_fst_snd)

text \<open>Instances: two rules triggering in each configuration.\<close>

theorem recommendations_paired_with_issues_witness:
  "issues (analyzePrintability \<lparr>vertices = 200000, faces = 0, fileSize = 20000000\<rparr>) \<noteq> []
   \<and> zip (issues (analyzePrintability \<lparr>vertices = 200000, faces = 0, fileSize = 20000000\<rparr>))
         (recommendations
            (analyzePrintability \<lparr>vertices = 200000, faces = 0, fileSize = 20000000\<rparr>))
      = [(''High vertex count may slow printing'', ''Consider reducing model complexity''),
         (''Large file size may indicate excessive detail'', ''Optimize mesh for 3D printing'')]
   \<and> issues (validateForPrinting \<lparr>vertices = 8, faces = 60000, volume = 0.5\<rparr>) \<noteq> []
   \<and> zip (issues (validateForPrinting \<lparr>vertices = 8, faces = 60000, volume = 0.5\<rparr>))
         (recommendations (validateForPrinting \<lparr>vertices = 8, faces = 60000, volume = 0.5\<rparr>))
      = [(''Model may be too small for reliable printing'', ''Consider scaling up the model''),
         (''High face count may cause slicer performance issues'',
          ''Consider mesh decimation to reduce complexity'')]"
proof -
  have h1: "issues (analyzePrintability \<lparr>vertices = 200000, faces = 0, fileSize = 20000000\<rparr>) \<noteq> []"
    by (simp add: analyzePrintability_def)
  have h2: "issues (validateForPrinting \<lparr>vertices = 8, faces = 60000, volume = 0.5\<rparr>) \<noteq> []"
    by (simp add: validateForPrinting_def)
  have r1: "fired rulesA \<lparr>vertices = 200000, faces = 0, fileSize = 20000000\<rparr> =
      [(''High vertex count may slow printing'', ''Consider reducing model complexity''),
       (''Large file size may indicate excessive detail'', ''Optimize mesh for 3D printing'')]"
    by (simp add: fired_def rulesA_def)
  have r2: "fired rulesB \<lparr>vertices = 8, faces = 60000, volume = 0.5\<rparr> =
      [(''Model may be too small for reliable printing'', ''Consider scaling up the model''),
       (''High face count may cause slicer performance issues'',
        ''Consider mesh decimation to reduce complexity'')]"
    by (simp add: fired_def rulesB_def)
  from recommendations_paired_with_issues [of "\<lparr>vertices = 200000, faces = 0, fileSize = 20000000\<rparr>"
      "\<lparr>vertices = 8, faces = 60000, volume = 0.5\<rparr>"] h1 h2 r1 r2
  show ?thesis by simp
qed

end
